theory Spec2Isabelle
  imports Main "HOL-Library.Sublist"
begin

section \<open>Data model of gh-fork-sync (main.go)\<close>

text \<open>
  Go strings are byte sequences; they are modelled as \<open>string\<close> (a list of bytes).
  The three structs of main.go become records. The anonymous \<open>Parent\<close> struct nested in
  \<open>RepoInfo\<close> is flattened into the two fields \<open>Parent_FullName\<close> and \<open>Parent_CloneURL\<close>.
\<close>

record AppConfig =
  UpstreamBranch :: string
  OriginBranch :: string
  Rebase :: bool
  ForcePush :: bool
  DryRun :: bool

record RepoInfo =
  FullName :: string
  Fork :: bool
  Parent_FullName :: string
  Parent_CloneURL :: string

record GitCommand =
  Args :: "string list"
  Description :: string

section \<open>The functions of Go's strings package that main.go calls\<close>

text \<open>
  \<open>HasPrefix\<close>, \<open>HasSuffix\<close>, \<open>TrimPrefix\<close> and \<open>TrimSuffix\<close> follow the bodies of the Go
  library: a length test and a comparison of the slice.
\<close>

definition HasPrefix :: "string \<Rightarrow> string \<Rightarrow> bool" where
  "HasPrefix s p = (length p \<le> length s \<and> take (length p) s = p)"

definition HasSuffix :: "string \<Rightarrow> string \<Rightarrow> bool" where
  "HasSuffix s suf = (length suf \<le> length s \<and> drop (length s - length suf) s = suf)"

definition TrimPrefix :: "string \<Rightarrow> string \<Rightarrow> string" where
  "TrimPrefix s p = (if HasPrefix s p then drop (length p) s else s)"

definition TrimSuffix :: "string \<Rightarrow> string \<Rightarrow> string" where
  "TrimSuffix s suf = (if HasSuffix s suf then take (length s - length suf) s else s)"

text \<open>
  \<open>Index s substr\<close> is the position of the first occurrence of \<open>substr\<close> in \<open>s\<close>; Go returns
  -1 when there is none, the model returns \<open>None\<close>. \<open>Contains\<close> is Go's \<open>Index(s, substr) >= 0\<close>.
\<close>

fun Index :: "string \<Rightarrow> string \<Rightarrow> nat option" where
  "Index [] substr = (if substr = [] then Some 0 else None)"
| "Index (c # cs) substr =
     (if HasPrefix (c # cs) substr then Some 0 else map_option Suc (Index cs substr))"

definition Contains :: "string \<Rightarrow> string \<Rightarrow> bool" where
  "Contains s substr = (Index s substr \<noteq> None)"

section \<open>Errors\<close>

text \<open>
  Every \<open>fmt.Errorf\<close> site of main.go is a constructor carrying the values that are
  formatted into the message; \<open>Error\<close> renders the message as Go's \<open>err.Error()\<close> does.
\<close>

definition nl :: string where
  "nl = [CHR 0x0A]"

datatype error =
    GetRemoteFailed string
  | UnsupportedURLFormat string
  | MalformedURL string
  | RepoInfoFailed string
  | NotAFork string
  | CommandFailed string string string

fun Error :: "error \<Rightarrow> string" where
  "Error (GetRemoteFailed e) = ''failed to get origin remote: '' @ e"
| "Error (UnsupportedURLFormat url) = ''unsupported origin URL format: '' @ url"
| "Error (MalformedURL url) = ''failed to parse owner/repo from URL: '' @ url"
| "Error (RepoInfoFailed e) = ''failed to get repo info: '' @ e"
| "Error (NotAFork name) = ''repository '' @ name @ '' isn't a fork''"
| "Error (CommandFailed desc e out) = desc @ '': '' @ e @ nl @ ''Output: '' @ out"

section \<open>validateFork and getSyncCommand\<close>

text \<open>validateFork, main.go lines 117-122: \<open>None\<close> is Go's nil error.\<close>

definition validateFork :: "RepoInfo \<Rightarrow> error option" where
  "validateFork info = (if \<not> Fork info then Some (NotAFork (FullName info)) else None)"

text \<open>getSyncCommand, main.go lines 134-153.\<close>

definition getSyncCommand :: "AppConfig \<Rightarrow> string \<Rightarrow> GitCommand" where
  "getSyncCommand config upstreamBranch =
     (if Rebase config then
        (let args = [''rebase'', ''upstream''];
             args = (if upstreamBranch \<noteq> [] then args @ [''upstream/'' @ upstreamBranch] else args)
         in \<lparr>Args = args, Description = ''rebasing onto upstream''\<rparr>)
      else
        (let args = [''merge'', ''upstream''];
             args = (if upstreamBranch \<noteq> [] then args @ [''upstream/'' @ upstreamBranch] else args)
         in \<lparr>Args = args, Description = ''merging upstream''\<rparr>))"

text \<open>
  \<open>SplitN\<close> follows the loop of Go's \<open>genSplit\<close> for a non-empty separator and a count
  \<open>n \<ge> 0\<close>, the only way main.go calls it (literal separators, \<open>n = 2\<close>): the count is
  capped at \<open>len(s) + 1\<close>, then at most \<open>n - 1\<close> cuts are made at the first occurrence of the
  separator and the remainder is the last element. \<open>genSplit_loop s sep k\<close> is the loop with
  \<open>k\<close> cuts left.
\<close>

fun genSplit_loop :: "string \<Rightarrow> string \<Rightarrow> nat \<Rightarrow> string list" where
  "genSplit_loop s sep 0 = [s]"
| "genSplit_loop s sep (Suc k) =
     (case Index s sep of
        None \<Rightarrow> [s]
      | Some m \<Rightarrow> take m s # genSplit_loop (drop (m + length sep) s) sep k)"

definition SplitN :: "string \<Rightarrow> string \<Rightarrow> nat \<Rightarrow> string list" where
  "SplitN s sep n = (if n = 0 then [] else genSplit_loop s sep (min n (length s + 1) - 1))"

text \<open>
  \<open>TrimSpace\<close> removes the leading and trailing white space that Go's \<open>unicode.IsSpace\<close>
  recognises. On the UTF-8 bytes of a Go string these are the encodings of tab, line feed,
  vertical tab, form feed, carriage return, space, U+0085, U+00A0, U+1680, U+2000 to U+200A,
  U+2028, U+2029, U+202F, U+205F and U+3000.
\<close>

definition spaceRunes :: "string list" where
  "spaceRunes =
     [[CHR 0x09], [CHR 0x0A], [CHR 0x0B], [CHR 0x0C], [CHR 0x0D], [CHR 0x20],
      [CHR 0xC2, CHR 0x85], [CHR 0xC2, CHR 0xA0],
      [CHR 0xE1, CHR 0x9A, CHR 0x80],
      [CHR 0xE2, CHR 0x80, CHR 0x80], [CHR 0xE2, CHR 0x80, CHR 0x81],
      [CHR 0xE2, CHR 0x80, CHR 0x82], [CHR 0xE2, CHR 0x80, CHR 0x83],
      [CHR 0xE2, CHR 0x80, CHR 0x84], [CHR 0xE2, CHR 0x80, CHR 0x85],
      [CHR 0xE2, CHR 0x80, CHR 0x86], [CHR 0xE2, CHR 0x80, CHR 0x87],
      [CHR 0xE2, CHR 0x80, CHR 0x88], [CHR 0xE2, CHR 0x80, CHR 0x89],
      [CHR 0xE2, CHR 0x80, CHR 0x8A],
      [CHR 0xE2, CHR 0x80, CHR 0xA8], [CHR 0xE2, CHR 0x80, CHR 0xA9],
      [CHR 0xE2, CHR 0x80, CHR 0xAF], [CHR 0xE2, CHR 0x81, CHR 0x9F],
      [CHR 0xE3, CHR 0x80, CHR 0x80]]"

function TrimLeftSpace :: "string \<Rightarrow> string" where
  "TrimLeftSpace s =
     (case find (HasPrefix s) spaceRunes of
        None \<Rightarrow> s
      | Some r \<Rightarrow> TrimLeftSpace (drop (length r) s))"
  by pat_completeness auto
termination
proof (relation "measure length")
  show "wf (measure length)" by simp
next
  fix s r
  assume "find (HasPrefix s) spaceRunes = Some r"
  then have r: "r \<in> set spaceRunes" and p: "HasPrefix s r"
    by (auto simp: find_Some_iff)
  from r have "r \<noteq> []" by (auto simp: spaceRunes_def)
  with p have "0 < length r" "length r \<le> length s" by (simp_all add: HasPrefix_def)
  then have "length s - length r < length s" by arith
  then show "(drop (length r) s, s) \<in> measure length" by simp
qed

function TrimRightSpace :: "string \<Rightarrow> string" where
  "TrimRightSpace s =
     (case find (HasSuffix s) spaceRunes of
        None \<Rightarrow> s
      | Some r \<Rightarrow> TrimRightSpace (take (length s - length r) s))"
  by pat_completeness auto
termination
proof (relation "measure length")
  show "wf (measure length)" by simp
next
  fix s r
  assume "find (HasSuffix s) spaceRunes = Some r"
  then have r: "r \<in> set spaceRunes" and p: "HasSuffix s r"
    by (auto simp: find_Some_iff)
  from r have "r \<noteq> []" by (auto simp: spaceRunes_def)
  with p have "0 < length r" "length r \<le> length s" by (simp_all add: HasSuffix_def)
  then have "length s - length r < length s" by arith
  then show "(take (length s - length r) s, s) \<in> measure length" by simp
qed

declare TrimLeftSpace.simps [simp del]
declare TrimRightSpace.simps [simp del]

definition TrimSpace :: "string \<Rightarrow> string" where
  "TrimSpace s = TrimRightSpace (TrimLeftSpace s)"

section \<open>Results, collaborators and the trace of a run\<close>

text \<open>
  A Go function returning \<open>(value, error)\<close> returns \<open>Ok\<close> or \<open>Err\<close>; \<open>Panic\<close> is the run-time
  panic of an index out of range, which aborts the process.
\<close>

datatype 'a result = Ok 'a | Err error | Panic

text \<open>
  The collaborators of a run: the outcome of \<open>api.DefaultRESTClient()\<close> (an error message
  or none), of \<open>client.Get\<close> on a path (an error message or the decoded metadata), of
  \<open>safeexec.LookPath\<close>, and of \<open>exec.Command(bin, args...).CombinedOutput()\<close> (the captured
  output and an error message or none). One run calls each of them at most once for any
  given argument, so a function of the arguments represents every behaviour of the
  environment during a run.
\<close>

record world =
  DefaultRESTClient :: "string option"
  RESTClient_Get :: "string \<Rightarrow> string + RepoInfo"
  LookPath :: "string \<Rightarrow> string + string"
  CombinedOutput :: "string \<Rightarrow> string list \<Rightarrow> string \<times> string option"

text \<open>
  What a run does is its trace: the text written to standard output and the calls made to
  the collaborators, in order. \<open>Crash\<close> is the abort of the process by a panic.
\<close>

datatype event =
    Print string
  | Exec string "string list"
  | NewRESTClient
  | ApiGet string
  | LookPathCall string
  | Crash

fun execs :: "event list \<Rightarrow> (string \<times> string list) list" where
  "execs [] = []"
| "execs (Exec bin args # tr) = (bin, args) # execs tr"
| "execs (e # tr) = execs tr"

definition cross :: string where
  "cross = [CHR 0xE2, CHR 0x9C, CHR 0x97]"

definition check_mark :: string where
  "check_mark = [CHR 0xE2, CHR 0x9C, CHR 0x93]"

section \<open>GetOriginRepo and getRepoInfo\<close>

text \<open>
  GetOriginRepo, main.go lines 97-103: the check of the number of parts and the result.
\<close>

definition GetOriginRepo_parts :: "string \<Rightarrow> string list \<Rightarrow> (string \<times> string) result" where
  "GetOriginRepo_parts url parts =
     (if length parts < 2 then Err (MalformedURL url)
      else Ok (parts ! 0, TrimSuffix (parts ! 1) ''.git''))"

text \<open>
  GetOriginRepo, main.go lines 83-103, on the trimmed \<open>url\<close>. The index \<open>[1]\<close> into the result
  of the split at \<open>github.com/\<close> panics in Go when the split has fewer than two elements.
\<close>

definition GetOriginRepo_parse :: "string \<Rightarrow> (string \<times> string) result" where
  "GetOriginRepo_parse url =
     (if HasPrefix url ''git@github.com:'' then
        (let path = TrimPrefix url ''git@github.com:'';
             parts = SplitN path ''/'' 2
         in GetOriginRepo_parts url parts)
      else if Contains url ''github.com/'' then
        (let sp = SplitN url ''github.com/'' 2
         in if length sp \<le> 1 then Panic
            else (let path = sp ! 1;
                      parts = SplitN path ''/'' 2
                  in GetOriginRepo_parts url parts))
      else Err (UnsupportedURLFormat url))"

text \<open>
  The text that GetOriginRepo splits into owner and repository: what follows the prefix
  \<open>git@github.com:\<close>, or else what follows the first occurrence of \<open>github.com/\<close>; there is
  none for a url of neither shape. It is used to state what the parsing computes.
\<close>

definition urlPath :: "string \<Rightarrow> string option" where
  "urlPath url =
     (if HasPrefix url ''git@github.com:'' then Some (drop (length ''git@github.com:'') url)
      else map_option (\<lambda>i. drop (i + length ''github.com/'') url) (Index url ''github.com/''))"

text \<open>
  GetOriginRepo, main.go lines 73-104: runs \<open>git remote get-url origin\<close>, trims the output
  and parses it. The first component is the trace of the call.
\<close>

definition GetOriginRepo :: "world \<Rightarrow> event list \<times> (string \<times> string) result" where
  "GetOriginRepo w =
     ([Exec ''git'' [''remote'', ''get-url'', ''origin'']],
      (case CombinedOutput w ''git'' [''remote'', ''get-url'', ''origin''] of
         (output, Some err) \<Rightarrow> Err (GetRemoteFailed err)
       | (output, None) \<Rightarrow> GetOriginRepo_parse (TrimSpace output)))"

text \<open>getRepoInfo, main.go lines 107-114.\<close>

definition getRepoInfo :: "world \<Rightarrow> string \<Rightarrow> string \<Rightarrow> event list \<times> RepoInfo result" where
  "getRepoInfo w owner repoName =
     ([ApiGet (''repos/'' @ owner @ ''/'' @ repoName)],
      (case RESTClient_Get w (''repos/'' @ owner @ ''/'' @ repoName) of
         Inl err \<Rightarrow> Err (RepoInfoFailed err)
       | Inr info \<Rightarrow> Ok info))"

section \<open>runGitCommand, printDryRun and main\<close>

text \<open>runGitCommand, main.go lines 125-131.\<close>

definition runGitCommand :: "world \<Rightarrow> string \<Rightarrow> GitCommand \<Rightarrow> event list \<times> error option" where
  "runGitCommand w gitBin cmd =
     ([Exec gitBin (Args cmd)],
      (case CombinedOutput w gitBin (Args cmd) of
         (output, Some err) \<Rightarrow> Some (CommandFailed (Description cmd) err output)
       | (output, None) \<Rightarrow> None))"

text \<open>printDryRun, main.go lines 162-166: the line of the integration command.\<close>

definition printDryRun_sync :: "AppConfig \<Rightarrow> string" where
  "printDryRun_sync config =
     (if Rebase config then ''Would run: git rebase upstream/'' @ UpstreamBranch config @ nl
      else ''Would run: git merge upstream/'' @ UpstreamBranch config @ nl)"

text \<open>printDryRun, main.go lines 156-173.\<close>

definition printDryRun :: "AppConfig \<Rightarrow> string \<Rightarrow> event list" where
  "printDryRun config parentCloneURL =
     (let pushCmd = ''push'';
          pushCmd = (if ForcePush config then pushCmd @ '' -f'' else pushCmd)
      in [Print (''Note: The following commands are examples. The actual upstream URL will be taken from your fork's parent repository.'' @ nl),
          Print (''Dry run mode - commands that would be executed:'' @ nl),
          Print (''Would run: git remote add upstream '' @ parentCloneURL @ nl),
          Print (''Would run: git fetch upstream'' @ nl),
          Print (printDryRun_sync config),
          Print (''Would run: git '' @ pushCmd @ '' origin HEAD:'' @ OriginBranch config @ nl)])"

text \<open>
  main is straight-line code with early returns; it is modelled in four pieces, each the
  rest of the function from its first line on. main, lines 260-275: push.
\<close>

definition main_push :: "world \<Rightarrow> AppConfig \<Rightarrow> string \<Rightarrow> event list" where
  "main_push w config gitBin =
     (let pushArgs = [''push''];
          pushArgs = (if ForcePush config then pushArgs @ [''-f''] else pushArgs);
          pushArgs = pushArgs @ [''origin'', ''HEAD:'' @ OriginBranch config];
          cmd = \<lparr>Args = pushArgs, Description = ''pushing to origin/'' @ OriginBranch config\<rparr>;
          (ev, r) = runGitCommand w gitBin cmd
      in ev @
         (case r of
            Some err \<Rightarrow> [Print (cross @ '' Error while '' @ Error err @ nl)]
          | None \<Rightarrow> [Print (check_mark @ '' Pushed to origin/'' @ OriginBranch config @ nl)]))"

text \<open>main, lines 243-275: integrate, then push.\<close>

definition main_sync :: "world \<Rightarrow> AppConfig \<Rightarrow> string \<Rightarrow> event list" where
  "main_sync w config gitBin =
     (let cmd = getSyncCommand config (UpstreamBranch config);
          (ev, r) = runGitCommand w gitBin cmd
      in ev @
         (case r of
            Some err \<Rightarrow>
              [Print (cross @ '' Error while '' @ Error err @ nl),
               (if Rebase config then Print (''To abort the rebase, run: git rebase --abort'' @ nl)
                else Print (''To abort the merge, run: git merge --abort'' @ nl))]
          | None \<Rightarrow>
              (if Rebase config
               then Print (check_mark @ '' Rebased onto upstream/'' @ UpstreamBranch config @ nl)
               else Print (check_mark @ '' Merged upstream/'' @ UpstreamBranch config @ nl))
              # main_push w config gitBin))"

text \<open>main, lines 232-275: fetch, then integrate and push.\<close>

definition main_fetch :: "world \<Rightarrow> AppConfig \<Rightarrow> string \<Rightarrow> event list" where
  "main_fetch w config gitBin =
     (let cmd = \<lparr>Args = [''fetch'', ''upstream''], Description = ''fetching upstream''\<rparr>;
          (ev, r) = runGitCommand w gitBin cmd
      in ev @
         (case r of
            Some err \<Rightarrow> [Print (cross @ '' Error while '' @ Error err @ nl)]
          | None \<Rightarrow> Print (check_mark @ '' Fetched upstream'' @ nl) # main_sync w config gitBin))"

text \<open>main, lines 220-275: add the upstream remote, then fetch, integrate and push.\<close>

definition main_remote_add :: "world \<Rightarrow> AppConfig \<Rightarrow> RepoInfo \<Rightarrow> string \<Rightarrow> event list" where
  "main_remote_add w config repoInfo gitBin =
     (let cmd = \<lparr>Args = [''remote'', ''add'', ''upstream'', Parent_CloneURL repoInfo],
                 Description = ''adding upstream remote''\<rparr>;
          (ev, r) = runGitCommand w gitBin cmd
      in ev @
         (case r of
            Some err \<Rightarrow>
              (if \<not> Contains (Error err) ''remote upstream already exists''
               then [Print (cross @ '' Error while '' @ Error err @ nl)]
               else main_fetch w config gitBin)
          | None \<Rightarrow> main_fetch w config gitBin))"

text \<open>
  main, lines 175-276. The configuration is the result of parseFlags, which only binds the
  flags of the command line.
\<close>

definition main :: "world \<Rightarrow> AppConfig \<Rightarrow> event list" where
  "main w config =
     (if DryRun config then printDryRun config ''https://github.com/upstream/repo.git''
      else
        NewRESTClient #
        (case DefaultRESTClient w of
           Some err \<Rightarrow> [Print (cross @ '' Error: '' @ err @ nl)]
         | None \<Rightarrow>
             (let (ev, r) = GetOriginRepo w
              in ev @
                 (case r of
                    Panic \<Rightarrow> [Crash]
                  | Err err \<Rightarrow> [Print (cross @ '' Error: '' @ Error err @ nl)]
                  | Ok (owner, repoName) \<Rightarrow>
                      (let (ev', r') = getRepoInfo w owner repoName
                       in ev' @
                          (case r' of
                             Panic \<Rightarrow> [Crash]
                           | Err err \<Rightarrow> [Print (cross @ '' Error: '' @ Error err @ nl)]
                           | Ok repoInfo \<Rightarrow>
                               (case validateFork repoInfo of
                                  Some err \<Rightarrow> [Print (cross @ '' '' @ Error err @ nl)]
                                | None \<Rightarrow>
                                    Print (check_mark @ '' Detected fork: '' @ FullName repoInfo
                                           @ '' (parent: '' @ Parent_FullName repoInfo @ '')'' @ nl)
                                    # LookPathCall ''git''
                                    # (case LookPath w ''git'' of
                                         Inl err \<Rightarrow>
                                           [Print (cross @ '' Error while looking for git: '' @ err @ nl)]
                                       | Inr gitBin \<Rightarrow> main_remote_add w config repoInfo gitBin))))))))"

section \<open>Notions used to state the claims\<close>

text \<open>The calls to a collaborator among the events of a trace.\<close>

fun isCall :: "event \<Rightarrow> bool" where
  "isCall (Exec bin args) = True"
| "isCall NewRESTClient = True"
| "isCall (ApiGet p) = True"
| "isCall (LookPathCall f) = True"
| "isCall e = False"

text \<open>
  The runs that reach the git commands of main (line 220): the client is created, the origin
  url parses to \<open>owner\<close> and \<open>repoName\<close>, the metadata \<open>repoInfo\<close> is fetched and says fork, and
  git is found at \<open>gitBin\<close>. \<open>forkRun_events\<close> is the trace of such a run up to there.
\<close>

definition forkRun :: "world \<Rightarrow> string \<Rightarrow> string \<Rightarrow> RepoInfo \<Rightarrow> string \<Rightarrow> bool" where
  "forkRun w owner repoName repoInfo gitBin \<longleftrightarrow>
     DefaultRESTClient w = None
     \<and> snd (GetOriginRepo w) = Ok (owner, repoName)
     \<and> snd (getRepoInfo w owner repoName) = Ok repoInfo
     \<and> Fork repoInfo
     \<and> LookPath w ''git'' = Inr gitBin"

definition forkRun_events :: "string \<Rightarrow> string \<Rightarrow> RepoInfo \<Rightarrow> event list" where
  "forkRun_events owner repoName repoInfo =
     [NewRESTClient,
      Exec ''git'' [''remote'', ''get-url'', ''origin''],
      ApiGet (''repos/'' @ owner @ ''/'' @ repoName),
      Print (check_mark @ '' Detected fork: '' @ FullName repoInfo
             @ '' (parent: '' @ Parent_FullName repoInfo @ '')'' @ nl),
      LookPathCall ''git'']"

text \<open>
  A command succeeds when \<open>CombinedOutput\<close> returns no error. The remote-add step passes
  when it succeeds or when the message of its error contains "remote upstream already
  exists", the test of main.go line 226.
\<close>

definition succeeds :: "world \<Rightarrow> string \<Rightarrow> string list \<Rightarrow> bool" where
  "succeeds w bin args \<longleftrightarrow> snd (CombinedOutput w bin args) = None"

definition remoteAddCommand :: "RepoInfo \<Rightarrow> GitCommand" where
  "remoteAddCommand repoInfo =
     \<lparr>Args = [''remote'', ''add'', ''upstream'', Parent_CloneURL repoInfo],
      Description = ''adding upstream remote''\<rparr>"

definition remoteAddPasses :: "world \<Rightarrow> string \<Rightarrow> RepoInfo \<Rightarrow> bool" where
  "remoteAddPasses w gitBin repoInfo =
     (case snd (runGitCommand w gitBin (remoteAddCommand repoInfo)) of
        None \<Rightarrow> True
      | Some err \<Rightarrow> Contains (Error err) ''remote upstream already exists'')"

text \<open>The arguments of the push command, main.go lines 261-265.\<close>

definition pushArgs :: "AppConfig \<Rightarrow> string list" where
  "pushArgs config =
     ''push'' # (if ForcePush config then [''-f''] else [])
     @ [''origin'', ''HEAD:'' @ OriginBranch config]"

text \<open>
  To compare the dry run with a real run: \<open>projectedLine cmd\<close> is the line that shows the
  command \<open>cmd\<close> as the dry run shows commands, "Would run: git" followed by the arguments
  that are passed to git, separated by spaces (\<open>Join\<close> is Go's \<open>strings.Join\<close>).
\<close>

fun Join :: "string list \<Rightarrow> string \<Rightarrow> string" where
  "Join [] sep = []"
| "Join [x] sep = x"
| "Join (x # xs) sep = x @ sep @ Join xs sep"

definition projectedLine :: "GitCommand \<Rightarrow> string" where
  "projectedLine cmd = ''Would run: git '' @ Join (Args cmd) '' '' @ nl"

text \<open>
  Concrete runs: the fork me/fork of up/stream, git at /usr/bin/git, the configuration of
  the defaults, and an environment in which the command with the arguments \<open>failing\<close> fails
  with the output \<open>out\<close> and the error \<open>err\<close> while every other command succeeds.
\<close>

definition example_info :: RepoInfo where
  "example_info =
     \<lparr>FullName = ''me/fork'', Fork = True, Parent_FullName = ''up/stream'',
      Parent_CloneURL = ''https://github.com/up/stream.git''\<rparr>"

definition example_world :: "string list \<Rightarrow> string \<Rightarrow> string \<Rightarrow> world" where
  "example_world failing out err =
     \<lparr>DefaultRESTClient = None,
      RESTClient_Get = (\<lambda>path. if path = ''repos/me/fork'' then Inr example_info else Inl ''HTTP 404''),
      LookPath = (\<lambda>file. Inr ''/usr/bin/git''),
      CombinedOutput = (\<lambda>bin args.
        if args = [''remote'', ''get-url'', ''origin'']
        then (''https://github.com/me/fork.git'' @ nl, None)
        else if args = failing then (out, Some err)
        else ([], None))\<rparr>"

definition example_config :: AppConfig where
  "example_config =
     \<lparr>UpstreamBranch = ''main'', OriginBranch = ''main'', Rebase = False, ForcePush = False,
      DryRun = False\<rparr>"

definition world_all_ok :: world where
  "world_all_ok = example_world [] [] []"

definition world_remote_exists :: world where
  "world_remote_exists =
     example_world [''remote'', ''add'', ''upstream'', ''https://github.com/up/stream.git'']
       (''error: remote upstream already exists.'' @ nl) ''exit status 3''"

definition world_remote_add_broken :: world where
  "world_remote_add_broken =
     example_world [''remote'', ''add'', ''upstream'', ''https://github.com/up/stream.git'']
       (''error: could not lock config file .git/config: Permission denied'' @ nl)
       ''exit status 255''"

definition world_merge_conflict :: world where
  "world_merge_conflict =
     example_world [''merge'', ''upstream'', ''upstream/main'']
       (''CONFLICT (content): Merge conflict in README.md'' @ nl) ''exit status 1''"

section \<open>Facts about the string functions\<close>

lemma HasPrefix_iff_prefix: "HasPrefix s p \<longleftrightarrow> prefix p s"
  unfolding HasPrefix_def prefix_def
  by (metis append_eq_conv_conj append_take_drop_id length_append le_add1)

lemma Index_append_hit: "Index (a @ b @ c) b \<noteq> None"
proof (induction a)
  case Nil
  show ?case
  proof (cases "b @ c")
    case Nil
    then show ?thesis by simp
  next
    case (Cons y ys)
    have "prefix b (b @ c)" by simp
    with Cons show ?thesis by (simp add: HasPrefix_iff_prefix)
  qed
next
  case (Cons x a)
  then show ?case by simp
qed

lemma Contains_middle: "Contains (a @ b @ c) b"
  unfolding Contains_def by (rule Index_append_hit)

lemma Index_Some_le: "Index s sep = Some m \<Longrightarrow> m + length sep \<le> length s"
proof (induction s arbitrary: m)
  case Nil
  then show ?case by (simp split: if_splits)
next
  case (Cons c cs)
  then show ?case
    by (auto simp: HasPrefix_def split: if_splits)
qed

lemma Index_Some_split:
  "Index s sep = Some m \<Longrightarrow> s = take m s @ sep @ drop (m + length sep) s"
proof (induction s arbitrary: m)
  case Nil
  then show ?case by (simp split: if_splits)
next
  case (Cons c cs)
  show ?case
  proof (cases "HasPrefix (c # cs) sep")
    case True
    with Cons.prems have "m = 0" by simp
    moreover from True have "c # cs = sep @ drop (length sep) (c # cs)"
      unfolding HasPrefix_def by (metis append_take_drop_id)
    ultimately show ?thesis by simp
  next
    case False
    with Cons.prems obtain k where k: "Index cs sep = Some k" "m = Suc k"
      by auto
    from Cons.IH [OF k(1)] k(2) show ?thesis by simp
  qed
qed

lemma Index_char_None: "Index s [c] = None \<longleftrightarrow> c \<notin> set s"
  by (induction s) (auto simp: HasPrefix_def)

lemma Index_char_Some: "Index s [c] = Some m \<Longrightarrow> c \<notin> set (take m s)"
proof (induction s arbitrary: m)
  case Nil
  then show ?case by simp
next
  case (Cons x xs)
  then show ?case
    by (auto simp: HasPrefix_def split: if_splits)
qed

lemma SplitN2_None: "Index s sep = None \<Longrightarrow> SplitN s sep 2 = [s]"
  by (cases s) (simp_all add: SplitN_def numeral_2_eq_2)

lemma SplitN2_Some:
  assumes "Index s sep = Some m" and "sep \<noteq> []"
  shows "SplitN s sep 2 = [take m s, drop (m + length sep) s]"
proof -
  from assms have "s \<noteq> []" by (cases s) auto
  then have "min 2 (length s + 1) - 1 = Suc 0" by (cases s) auto
  with assms show ?thesis by (simp add: SplitN_def)
qed

lemma parts_None:
  "Index path ''/'' = None \<Longrightarrow> GetOriginRepo_parts url (SplitN path ''/'' 2) = Err (MalformedURL url)"
  by (simp add: SplitN2_None GetOriginRepo_parts_def)

lemma parts_Some:
  "Index path ''/'' = Some i \<Longrightarrow>
   GetOriginRepo_parts url (SplitN path ''/'' 2) = Ok (take i path, TrimSuffix (drop (Suc i) path) ''.git'')"
  by (simp add: SplitN2_Some GetOriginRepo_parts_def)

lemma parts_char:
  "GetOriginRepo_parts url (SplitN path ''/'' 2) =
     (case Index path ''/'' of
        None \<Rightarrow> Err (MalformedURL url)
      | Some i \<Rightarrow> Ok (take i path, TrimSuffix (drop (Suc i) path) ''.git''))"
  by (cases "Index path ''/''") (simp_all add: parts_None parts_Some)

lemma parse_ssh:
  "HasPrefix url ''git@github.com:'' \<Longrightarrow>
   GetOriginRepo_parse url =
     GetOriginRepo_parts url (SplitN (drop (length ''git@github.com:'') url) ''/'' 2)"
  by (simp add: GetOriginRepo_parse_def TrimPrefix_def)

lemma parse_https:
  assumes "\<not> HasPrefix url ''git@github.com:''" and "Index url ''github.com/'' = Some m"
  shows "GetOriginRepo_parse url =
     GetOriginRepo_parts url (SplitN (drop (m + length ''github.com/'') url) ''/'' 2)"
proof -
  from assms(2) have "SplitN url ''github.com/'' 2 = [take m url, drop (m + length ''github.com/'') url]"
    by (rule SplitN2_Some) simp
  with assms show ?thesis
    by (simp add: GetOriginRepo_parse_def Contains_def)
qed

lemma parse_other:
  "\<not> HasPrefix url ''git@github.com:'' \<Longrightarrow> Index url ''github.com/'' = None \<Longrightarrow>
   GetOriginRepo_parse url = Err (UnsupportedURLFormat url)"
  by (simp add: GetOriginRepo_parse_def Contains_def)

lemma GetOriginRepo_parse_char:
  "GetOriginRepo_parse url =
     (case urlPath url of
        None \<Rightarrow> Err (UnsupportedURLFormat url)
      | Some path \<Rightarrow>
          (case Index path ''/'' of
             None \<Rightarrow> Err (MalformedURL url)
           | Some i \<Rightarrow> Ok (take i path, TrimSuffix (drop (Suc i) path) ''.git'')))"
proof (cases "HasPrefix url ''git@github.com:''")
  case True
  then have "urlPath url = Some (drop (length ''git@github.com:'') url)"
    by (simp add: urlPath_def)
  then show ?thesis
    by (simp only: parse_ssh [OF True] parts_char option.case)
next
  case False
  show ?thesis
  proof (cases "Index url ''github.com/''")
    case None
    with False have "urlPath url = None" by (simp add: urlPath_def)
    then show ?thesis
      by (simp only: parse_other [OF False None] option.case)
  next
    case (Some m)
    with False have "urlPath url = Some (drop (m + length ''github.com/'') url)"
      by (simp add: urlPath_def)
    then show ?thesis
      by (simp only: parse_https [OF False Some] parts_char option.case)
  qed
qed


lemma HasSuffix_iff_suffix: "HasSuffix s suf \<longleftrightarrow> suffix suf s"
proof
  assume "HasSuffix s suf"
  then have "s = take (length s - length suf) s @ suf"
    unfolding HasSuffix_def by (metis append_take_drop_id)
  then show "suffix suf s" unfolding suffix_def by blast
next
  assume "suffix suf s"
  then obtain zs where "s = zs @ suf" unfolding suffix_def by blast
  then show "HasSuffix s suf" by (simp add: HasSuffix_def)
qed

lemma TrimSuffix_append: "TrimSuffix (s @ suf) suf = s"
  by (simp add: TrimSuffix_def HasSuffix_def)

lemma TrimSuffix_drop_id:
  "\<not> HasSuffix u suf \<Longrightarrow> TrimSuffix (drop k u) suf = drop k u"
proof -
  assume n: "\<not> HasSuffix u suf"
  have "\<not> HasSuffix (drop k u) suf"
  proof
    assume "HasSuffix (drop k u) suf"
    then have "suffix suf (drop k u)" by (simp add: HasSuffix_iff_suffix)
    then have "suffix suf u" using suffix_drop suffix_order.trans by blast
    with n show False by (simp add: HasSuffix_iff_suffix)
  qed
  then show ?thesis by (simp add: TrimSuffix_def)
qed

lemma HasPrefix_append_iff:
  "length p \<le> length s \<Longrightarrow> HasPrefix (s @ t) p \<longleftrightarrow> HasPrefix s p"
  by (simp add: HasPrefix_def)

lemma Index_append_Some: "Index s sep = Some i \<Longrightarrow> Index (s @ t) sep = Some i"
proof (induction s arbitrary: i)
  case Nil
  then show ?case by (cases t) (auto simp: HasPrefix_def split: if_splits)
next
  case (Cons c cs)
  show ?case
  proof (cases "HasPrefix (c # cs) sep")
    case True
    then have "HasPrefix ((c # cs) @ t) sep"
      unfolding HasPrefix_iff_prefix by (rule prefix_prefix)
    with True Cons.prems show ?thesis by simp
  next
    case False
    with Cons.prems obtain k where k: "Index cs sep = Some k" "i = Suc k" by auto
    from Index_Some_le [OF k(1)] have "length sep \<le> length (c # cs)" by simp
    with False have "\<not> HasPrefix ((c # cs) @ t) sep"
      using HasPrefix_append_iff [of sep "c # cs" t] by blast
    with Cons.IH [OF k(1)] k(2) show ?thesis by simp
  qed
qed

lemma urlPath_append_git:
  assumes "urlPath u = Some path"
  shows "urlPath (u @ ''.git'') = Some (path @ ''.git'')"
proof (cases "HasPrefix u ''git@github.com:''")
  case True
  then have "HasPrefix (u @ ''.git'') ''git@github.com:''"
    unfolding HasPrefix_iff_prefix by (rule prefix_prefix)
  moreover from True have "length ''git@github.com:'' \<le> length u" by (simp add: HasPrefix_def)
  ultimately show ?thesis using assms True by (simp add: urlPath_def)
next
  case False
  with assms obtain m where m: "Index u ''github.com/'' = Some m"
    and path: "path = drop (m + length ''github.com/'') u"
    by (auto simp: urlPath_def)
  obtain a c where u: "u = a @ ''github.com/'' @ c"
    using Index_Some_split [OF m] by blast
  have slash: "CHR ''/'' \<in> set u"
    by (subst u) simp
  have no: "\<not> HasPrefix (u @ ''.git'') ''git@github.com:''"
  proof
    assume "HasPrefix (u @ ''.git'') ''git@github.com:''"
    then have "prefix ''git@github.com:'' (u @ ''.git'')" by (simp add: HasPrefix_iff_prefix)
    then consider "prefix ''git@github.com:'' u"
      | us where "''git@github.com:'' = u @ us"
      by (auto simp: prefix_append)
    then show False
    proof cases
      case 1
      with False show False by (simp add: HasPrefix_iff_prefix)
    next
      case 2
      then have "set u \<subseteq> set ''git@github.com:''" by (metis set_append Un_upper1)
      with slash show False by auto
    qed
  qed
  from Index_Some_le [OF m] have "m + length ''github.com/'' \<le> length u" .
  with no Index_append_Some [OF m] path show ?thesis
    by (simp add: urlPath_def)
qed

lemma parse_append_git:
  assumes ok: "GetOriginRepo_parse u = Ok r" and ns: "\<not> HasSuffix u ''.git''"
  shows "GetOriginRepo_parse (u @ ''.git'') = Ok r"
proof -
  from ok obtain path i where p: "urlPath u = Some path" and i: "Index path ''/'' = Some i"
    and r: "r = (take i path, TrimSuffix (drop (Suc i) path) ''.git'')"
    by (auto simp: GetOriginRepo_parse_char split: option.splits)
  from Index_Some_le [OF i] have le: "Suc i \<le> length path" by simp
  have "\<exists>k. path = drop k u"
    using p by (auto simp: urlPath_def split: if_splits)
  then obtain k where "path = drop k u" ..
  then have "drop (Suc i) path = drop (Suc i + k) u" by (simp add: add.commute)
  then have t: "TrimSuffix (drop (Suc i) path) ''.git'' = drop (Suc i) path"
    using TrimSuffix_drop_id [OF ns, of "Suc i + k"] by simp
  have "GetOriginRepo_parse (u @ ''.git'') =
        Ok (take i (path @ ''.git''), TrimSuffix (drop (Suc i) (path @ ''.git'')) ''.git'')"
    by (simp only: GetOriginRepo_parse_char urlPath_append_git [OF p]
          Index_append_Some [OF i] option.case)
  also have "take i (path @ ''.git'') = take i path" using le by simp
  also have "drop (Suc i) (path @ ''.git'') = drop (Suc i) path @ ''.git''" using le by simp
  also have "TrimSuffix (drop (Suc i) path @ ''.git'') ''.git'' = drop (Suc i) path"
    by (rule TrimSuffix_append)
  finally show ?thesis using r t by simp
qed

section \<open>Facts about main\<close>

lemma execs_append: "execs (a @ b) = execs a @ execs b"
  by (induction a rule: execs.induct) simp_all

lemma runGitCommand_fst: "fst (runGitCommand w gitBin cmd) = [Exec gitBin (Args cmd)]"
  by (simp add: runGitCommand_def)

lemma runGitCommand_snd_None:
  "snd (runGitCommand w gitBin cmd) = None \<longleftrightarrow> succeeds w gitBin (Args cmd)"
  by (simp add: runGitCommand_def succeeds_def split: prod.splits option.splits)

lemma main_push_eq:
  "main_push w config gitBin =
     Exec gitBin (''push'' # (if ForcePush config then [''-f''] else [])
                   @ [''origin'', ''HEAD:'' @ OriginBranch config])
     # (case snd (runGitCommand w gitBin
                   \<lparr>Args = ''push'' # (if ForcePush config then [''-f''] else [])
                             @ [''origin'', ''HEAD:'' @ OriginBranch config],
                    Description = ''pushing to origin/'' @ OriginBranch config\<rparr>) of
          Some err \<Rightarrow> [Print (cross @ '' Error while '' @ Error err @ nl)]
        | None \<Rightarrow> [Print (check_mark @ '' Pushed to origin/'' @ OriginBranch config @ nl)])"
  by (simp add: main_push_def Let_def runGitCommand_def split: prod.splits option.splits)

lemma main_sync_eq:
  "main_sync w config gitBin =
     Exec gitBin (Args (getSyncCommand config (UpstreamBranch config)))
     # (case snd (runGitCommand w gitBin (getSyncCommand config (UpstreamBranch config))) of
          Some err \<Rightarrow>
            [Print (cross @ '' Error while '' @ Error err @ nl),
             (if Rebase config then Print (''To abort the rebase, run: git rebase --abort'' @ nl)
              else Print (''To abort the merge, run: git merge --abort'' @ nl))]
        | None \<Rightarrow>
            (if Rebase config
             then Print (check_mark @ '' Rebased onto upstream/'' @ UpstreamBranch config @ nl)
             else Print (check_mark @ '' Merged upstream/'' @ UpstreamBranch config @ nl))
            # main_push w config gitBin)"
  by (simp add: main_sync_def Let_def runGitCommand_def split: prod.splits option.splits)

lemma main_fetch_eq:
  "main_fetch w config gitBin =
     Exec gitBin [''fetch'', ''upstream'']
     # (case snd (runGitCommand w gitBin
                   \<lparr>Args = [''fetch'', ''upstream''], Description = ''fetching upstream''\<rparr>) of
          Some err \<Rightarrow> [Print (cross @ '' Error while '' @ Error err @ nl)]
        | None \<Rightarrow> Print (check_mark @ '' Fetched upstream'' @ nl) # main_sync w config gitBin)"
  by (simp add: main_fetch_def Let_def runGitCommand_def split: prod.splits option.splits)

lemma main_remote_add_eq:
  "main_remote_add w config repoInfo gitBin =
     Exec gitBin (Args (remoteAddCommand repoInfo))
     # (case snd (runGitCommand w gitBin (remoteAddCommand repoInfo)) of
          Some err \<Rightarrow>
            (if \<not> Contains (Error err) ''remote upstream already exists''
             then [Print (cross @ '' Error while '' @ Error err @ nl)]
             else main_fetch w config gitBin)
        | None \<Rightarrow> main_fetch w config gitBin)"
  by (simp add: main_remote_add_def remoteAddCommand_def Let_def runGitCommand_def split: prod.splits option.splits)

lemma main_forkRun:
  assumes "\<not> DryRun config" and "forkRun w owner repoName repoInfo gitBin"
  shows "main w config =
           forkRun_events owner repoName repoInfo @ main_remote_add w config repoInfo gitBin"
proof -
  from assms(2) have a: "DefaultRESTClient w = None"
    and b: "snd (GetOriginRepo w) = Ok (owner, repoName)"
    and c: "snd (getRepoInfo w owner repoName) = Ok repoInfo"
    and d: "Fork repoInfo" and e: "LookPath w ''git'' = Inr gitBin"
    by (simp_all add: forkRun_def)
  have b': "GetOriginRepo w = ([Exec ''git'' [''remote'', ''get-url'', ''origin'']], Ok (owner, repoName))"
    using b by (simp add: GetOriginRepo_def)
  have c': "getRepoInfo w owner repoName =
              ([ApiGet (''repos/'' @ owner @ ''/'' @ repoName)], Ok repoInfo)"
    using c by (simp add: getRepoInfo_def)
  from d have d': "validateFork repoInfo = None" by (simp add: validateFork_def)
  show ?thesis
    using assms(1) by (simp add: main_def a b' c' d' e forkRun_events_def)
qed

lemma execs_forkRun_events:
  "execs (forkRun_events owner repoName repoInfo) = [(''git'', [''remote'', ''get-url'', ''origin''])]"
  by (simp add: forkRun_events_def)

lemma execs_main_push: "execs (main_push w config gitBin) = [(gitBin, pushArgs config)]"
  by (simp add: main_push_eq pushArgs_def split: option.splits)

lemma execs_main_sync:
  "execs (main_sync w config gitBin) =
     (gitBin, Args (getSyncCommand config (UpstreamBranch config)))
     # (if succeeds w gitBin (Args (getSyncCommand config (UpstreamBranch config)))
        then [(gitBin, pushArgs config)] else [])"
  by (cases "snd (runGitCommand w gitBin (getSyncCommand config (UpstreamBranch config)))")
     (simp_all add: main_sync_eq execs_main_push runGitCommand_snd_None [symmetric])

lemma execs_main_fetch:
  "execs (main_fetch w config gitBin) =
     (gitBin, [''fetch'', ''upstream''])
     # (if succeeds w gitBin [''fetch'', ''upstream'']
        then execs (main_sync w config gitBin) else [])"
proof -
  have s: "succeeds w gitBin [''fetch'', ''upstream''] \<longleftrightarrow>
           snd (runGitCommand w gitBin
                 \<lparr>Args = [''fetch'', ''upstream''], Description = ''fetching upstream''\<rparr>) = None"
    by (simp add: runGitCommand_snd_None)
  show ?thesis
    by (cases "snd (runGitCommand w gitBin
                 \<lparr>Args = [''fetch'', ''upstream''], Description = ''fetching upstream''\<rparr>)")
       (simp_all add: main_fetch_eq s)
qed

lemma execs_main_remote_add:
  "execs (main_remote_add w config repoInfo gitBin) =
     (gitBin, [''remote'', ''add'', ''upstream'', Parent_CloneURL repoInfo])
     # (if remoteAddPasses w gitBin repoInfo then execs (main_fetch w config gitBin) else [])"
  by (cases "snd (runGitCommand w gitBin (remoteAddCommand repoInfo))")
     (simp_all add: main_remote_add_eq remoteAddPasses_def, simp add: remoteAddCommand_def,
      simp add: remoteAddCommand_def)

lemma example_forkRun:
  "forkRun (example_world failing out err) ''me'' ''fork'' example_info ''/usr/bin/git''"
proof -
  have t: "TrimSpace (''https://github.com/me/fork.git'' @ nl) = ''https://github.com/me/fork.git''"
    by code_simp
  have p: "GetOriginRepo_parse ''https://github.com/me/fork.git'' = Ok (''me'', ''fork'')"
    by code_simp
  have co: "CombinedOutput (example_world failing out err) ''git'' [''remote'', ''get-url'', ''origin'']
            = (''https://github.com/me/fork.git'' @ nl, None)"
    by (simp add: example_world_def)
  have "snd (GetOriginRepo (example_world failing out err))
        = GetOriginRepo_parse (TrimSpace (''https://github.com/me/fork.git'' @ nl))"
    unfolding GetOriginRepo_def co by simp
  then have g: "snd (GetOriginRepo (example_world failing out err)) = Ok (''me'', ''fork'')"
    by (simp only: t p)
  have r: "snd (getRepoInfo (example_world failing out err) ''me'' ''fork'') = Ok example_info"
    by (simp add: getRepoInfo_def example_world_def)
  have f: "Fork example_info" by (simp add: example_info_def)
  have c: "DefaultRESTClient (example_world failing out err) = None"
    and l: "LookPath (example_world failing out err) ''git'' = Inr ''/usr/bin/git''"
    by (simp_all add: example_world_def)
  from c g r f l show ?thesis unfolding forkRun_def by blast
qed

lemma dry_run_line_never_real:
  "printDryRun_sync config \<noteq> projectedLine (getSyncCommand config (UpstreamBranch config))"
  by (simp add: printDryRun_sync_def projectedLine_def getSyncCommand_def Let_def nl_def)

section \<open>Claims\<close>

text \<open>
  C8. validateFork returns an error exactly when the fork flag is false; the message of that
  error contains the repository's full name; with the fork flag set it returns no error,
  whatever the full name is. The function is pure: its result depends on the metadata only.
\<close>

theorem C8_validateFork:
  "(validateFork info \<noteq> None \<longleftrightarrow> \<not> Fork info)
   \<and> (\<not> Fork info \<longrightarrow> (\<exists>e. validateFork info = Some e \<and> Contains (Error e) (FullName info)))
   \<and> (Fork info \<longrightarrow> validateFork info = None)"
proof -
  have "Contains (''repository '' @ FullName info @ '' isn't a fork'') (FullName info)"
    by (rule Contains_middle)
  then show ?thesis
    by (simp add: validateFork_def)
qed

theorem C8_validateFork_witness:
  "\<not> Fork \<lparr>FullName = ''user/repo'', Fork = False, Parent_FullName = [], Parent_CloneURL = []\<rparr>
   \<and> validateFork \<lparr>FullName = ''user/repo'', Fork = False, Parent_FullName = [], Parent_CloneURL = []\<rparr>
       = Some (NotAFork ''user/repo'')
   \<and> Contains (Error (NotAFork ''user/repo'')) ''user/repo''
   \<and> Fork \<lparr>FullName = ''user/repo'', Fork = True, Parent_FullName = [], Parent_CloneURL = []\<rparr>
   \<and> validateFork \<lparr>FullName = ''user/repo'', Fork = True, Parent_FullName = [], Parent_CloneURL = []\<rparr>
       = None"
  using C8_validateFork [of "\<lparr>FullName = ''user/repo'', Fork = False, Parent_FullName = [], Parent_CloneURL = []\<rparr>"]
        C8_validateFork [of "\<lparr>FullName = ''user/repo'', Fork = True, Parent_FullName = [], Parent_CloneURL = []\<rparr>"]
  by (simp add: validateFork_def)

text \<open>
  C3. getSyncCommand is a function of its two arguments alone (equal inputs give equal
  results), and its result is exactly: arguments rebase, upstream for rebase with the empty
  branch; rebase, upstream, upstream/b for rebase with a non-empty branch b; merge, upstream
  for merge with the empty branch; merge, upstream, upstream/b for merge with a non-empty
  branch b; the description is "rebasing onto upstream" for rebase and "merging upstream"
  for merge.
\<close>

theorem C3_getSyncCommand:
  "(c1 = c2 \<and> b1 = b2 \<longrightarrow> getSyncCommand c1 b1 = getSyncCommand c2 b2)
   \<and> (Rebase config \<and> b = [] \<longrightarrow> Args (getSyncCommand config b) = [''rebase'', ''upstream''])
   \<and> (Rebase config \<and> b \<noteq> [] \<longrightarrow>
        Args (getSyncCommand config b) = [''rebase'', ''upstream'', ''upstream/'' @ b])
   \<and> (\<not> Rebase config \<and> b = [] \<longrightarrow> Args (getSyncCommand config b) = [''merge'', ''upstream''])
   \<and> (\<not> Rebase config \<and> b \<noteq> [] \<longrightarrow>
        Args (getSyncCommand config b) = [''merge'', ''upstream'', ''upstream/'' @ b])
   \<and> (Rebase config \<longrightarrow> Description (getSyncCommand config b) = ''rebasing onto upstream'')
   \<and> (\<not> Rebase config \<longrightarrow> Description (getSyncCommand config b) = ''merging upstream'')"
  by (simp add: getSyncCommand_def Let_def)

theorem C3_getSyncCommand_witness:
  "getSyncCommand \<lparr>UpstreamBranch = [], OriginBranch = [], Rebase = True, ForcePush = False, DryRun = False\<rparr> []
     = \<lparr>Args = [''rebase'', ''upstream''], Description = ''rebasing onto upstream''\<rparr>
   \<and> getSyncCommand \<lparr>UpstreamBranch = [], OriginBranch = [], Rebase = True, ForcePush = False, DryRun = False\<rparr> ''main''
     = \<lparr>Args = [''rebase'', ''upstream'', ''upstream/main''], Description = ''rebasing onto upstream''\<rparr>
   \<and> getSyncCommand \<lparr>UpstreamBranch = [], OriginBranch = [], Rebase = False, ForcePush = False, DryRun = False\<rparr> []
     = \<lparr>Args = [''merge'', ''upstream''], Description = ''merging upstream''\<rparr>
   \<and> getSyncCommand \<lparr>UpstreamBranch = [], OriginBranch = [], Rebase = False, ForcePush = False, DryRun = False\<rparr> ''main''
     = \<lparr>Args = [''merge'', ''upstream'', ''upstream/main''], Description = ''merging upstream''\<rparr>"
  using
    C3_getSyncCommand [of "\<lparr>UpstreamBranch = [], OriginBranch = [], Rebase = True, ForcePush = False, DryRun = False\<rparr>"
      "\<lparr>UpstreamBranch = [], OriginBranch = [], Rebase = True, ForcePush = False, DryRun = False\<rparr>" "[]" "[]"
      "\<lparr>UpstreamBranch = [], OriginBranch = [], Rebase = True, ForcePush = False, DryRun = False\<rparr>" "[]"]
    C3_getSyncCommand [of "\<lparr>UpstreamBranch = [], OriginBranch = [], Rebase = True, ForcePush = False, DryRun = False\<rparr>"
      "\<lparr>UpstreamBranch = [], OriginBranch = [], Rebase = True, ForcePush = False, DryRun = False\<rparr>" "[]" "[]"
      "\<lparr>UpstreamBranch = [], OriginBranch = [], Rebase = True, ForcePush = False, DryRun = False\<rparr>" "''main''"]
    C3_getSyncCommand [of "\<lparr>UpstreamBranch = [], OriginBranch = [], Rebase = False, ForcePush = False, DryRun = False\<rparr>"
      "\<lparr>UpstreamBranch = [], OriginBranch = [], Rebase = False, ForcePush = False, DryRun = False\<rparr>" "[]" "[]"
      "\<lparr>UpstreamBranch = [], OriginBranch = [], Rebase = False, ForcePush = False, DryRun = False\<rparr>" "[]"]
    C3_getSyncCommand [of "\<lparr>UpstreamBranch = [], OriginBranch = [], Rebase = False, ForcePush = False, DryRun = False\<rparr>"
      "\<lparr>UpstreamBranch = [], OriginBranch = [], Rebase = False, ForcePush = False, DryRun = False\<rparr>" "[]" "[]"
      "\<lparr>UpstreamBranch = [], OriginBranch = [], Rebase = False, ForcePush = False, DryRun = False\<rparr>" "''main''"]
  by (simp add: getSyncCommand_def Let_def)

text \<open>
  C1, as stated, fails: parsing succeeds with an empty owner on git@github.com:/repo and
  with an empty name on https://github.com/owner/, where the split yields the two parts
  "owner" and "", one of them empty.
\<close>

theorem C1_counterexample:
  "GetOriginRepo_parse ''git@github.com:/repo'' = Ok ([], ''repo'')
   \<and> GetOriginRepo_parse ''https://github.com/owner/'' = Ok (''owner'', [])
   \<and> SplitN ''owner/'' ''/'' 2 = [''owner'', []]"
proof (intro conjI)
  show "GetOriginRepo_parse ''git@github.com:/repo'' = Ok ([], ''repo'')" by code_simp
  show "GetOriginRepo_parse ''https://github.com/owner/'' = Ok (''owner'', [])" by code_simp
  show "SplitN ''owner/'' ''/'' 2 = [''owner'', []]" by code_simp
qed

text \<open>
  C1, amended. If parsing succeeds, the text after the prefix git@github.com: (or after the
  first github.com/) was split at its first "/" into two parts: the owner is the first part
  and contains no "/", the name is the second part without one trailing .git; either may
  be empty. If the split yields fewer than two parts, parsing fails with MalformedURL
  carrying the url; and MalformedURL is returned only so, for a url of a supported shape
  whose text after the host has no "/".
\<close>

theorem C1_parse_parts:
  "(GetOriginRepo_parse url = Ok (owner, repo) \<longrightarrow>
      (\<exists>path rest. urlPath url = Some path \<and> path = owner @ ''/'' @ rest
         \<and> SplitN path ''/'' 2 = [owner, rest]
         \<and> CHR ''/'' \<notin> set owner \<and> repo = TrimSuffix rest ''.git''))
   \<and> (urlPath url = Some path \<and> length (SplitN path ''/'' 2) < 2 \<longrightarrow>
        GetOriginRepo_parse url = Err (MalformedURL url))
   \<and> (GetOriginRepo_parse url = Err (MalformedURL u) \<longrightarrow>
        u = url \<and> (\<exists>path. urlPath url = Some path \<and> SplitN path ''/'' 2 = [path]
                      \<and> CHR ''/'' \<notin> set path))"
proof (intro conjI impI)
  assume ok: "GetOriginRepo_parse url = Ok (owner, repo)"
  then obtain path i where p: "urlPath url = Some path" and i: "Index path ''/'' = Some i"
    and o: "owner = take i path" and r: "repo = TrimSuffix (drop (Suc i) path) ''.git''"
    by (auto simp: GetOriginRepo_parse_char split: option.splits)
  from Index_Some_split [OF i] o have "path = owner @ ''/'' @ drop (Suc i) path" by simp
  moreover from SplitN2_Some [OF i] o have "SplitN path ''/'' 2 = [owner, drop (Suc i) path]"
    by simp
  moreover from Index_char_Some [OF i] o have "CHR ''/'' \<notin> set owner" by simp
  ultimately show "\<exists>path rest. urlPath url = Some path \<and> path = owner @ ''/'' @ rest
         \<and> SplitN path ''/'' 2 = [owner, rest]
         \<and> CHR ''/'' \<notin> set owner \<and> repo = TrimSuffix rest ''.git''"
    using p r by blast
next
  assume a: "urlPath url = Some path \<and> length (SplitN path ''/'' 2) < 2"
  have "Index path ''/'' = None"
  proof (cases "Index path ''/''")
    case None
    then show ?thesis .
  next
    case (Some i)
    from SplitN2_Some [OF Some] a show ?thesis by simp
  qed
  with a show "GetOriginRepo_parse url = Err (MalformedURL url)"
    by (simp add: GetOriginRepo_parse_char)
next
  assume e: "GetOriginRepo_parse url = Err (MalformedURL u)"
  then obtain path where p: "urlPath url = Some path" and n: "Index path ''/'' = None"
    and u: "u = url"
    by (auto simp: GetOriginRepo_parse_char split: option.splits)
  from n have "SplitN path ''/'' 2 = [path]" by (rule SplitN2_None)
  moreover from n have "CHR ''/'' \<notin> set path" by (simp add: Index_char_None)
  ultimately have "\<exists>path. urlPath url = Some path \<and> SplitN path ''/'' 2 = [path]
                      \<and> CHR ''/'' \<notin> set path"
    using p by blast
  with u show "u = url" and "\<exists>path. urlPath url = Some path \<and> SplitN path ''/'' 2 = [path]
                      \<and> CHR ''/'' \<notin> set path"
    by simp_all
qed

theorem C1_parse_parts_witness:
  "GetOriginRepo_parse ''https://github.com/owner/repo.git'' = Ok (''owner'', ''repo'')
   \<and> (\<exists>path rest. urlPath ''https://github.com/owner/repo.git'' = Some path
         \<and> path = ''owner'' @ ''/'' @ rest \<and> SplitN path ''/'' 2 = [''owner'', rest]
         \<and> CHR ''/'' \<notin> set ''owner'' \<and> ''repo'' = TrimSuffix rest ''.git'')
   \<and> urlPath ''https://github.com/owner'' = Some ''owner''
   \<and> length (SplitN ''owner'' ''/'' 2) < 2
   \<and> GetOriginRepo_parse ''https://github.com/owner'' = Err (MalformedURL ''https://github.com/owner'')"
proof -
  have a: "GetOriginRepo_parse ''https://github.com/owner/repo.git'' = Ok (''owner'', ''repo'')"
    by code_simp
  have b: "urlPath ''https://github.com/owner'' = Some ''owner''" by code_simp
  have c: "length (SplitN ''owner'' ''/'' 2) < 2" by code_simp
  from a b c
    C1_parse_parts [of "''https://github.com/owner/repo.git''" "''owner''" "''repo''"]
    C1_parse_parts [of "''https://github.com/owner''" _ _ "''owner''"]
  show ?thesis by blast
qed

text \<open>
  C7. A url that parses to an owner and a name and does not end in .git parses to the same
  owner and name with .git appended. In particular https://github.com/owner/repo.git and
  git@github.com:owner/repo.git both give owner "owner" and name "repo", as
  https://github.com/owner/repo and git@github.com:owner/repo do.
\<close>

theorem C7_git_suffix:
  "(GetOriginRepo_parse u = Ok r \<and> \<not> HasSuffix u ''.git'' \<longrightarrow>
      GetOriginRepo_parse (u @ ''.git'') = Ok r)
   \<and> GetOriginRepo_parse ''https://github.com/owner/repo.git'' = Ok (''owner'', ''repo'')
   \<and> GetOriginRepo_parse ''git@github.com:owner/repo.git'' = Ok (''owner'', ''repo'')
   \<and> GetOriginRepo_parse ''https://github.com/owner/repo'' = Ok (''owner'', ''repo'')
   \<and> GetOriginRepo_parse ''git@github.com:owner/repo'' = Ok (''owner'', ''repo'')"
proof (intro conjI impI)
  assume "GetOriginRepo_parse u = Ok r \<and> \<not> HasSuffix u ''.git''"
  then show "GetOriginRepo_parse (u @ ''.git'') = Ok r"
    by (simp add: parse_append_git)
next
  show "GetOriginRepo_parse ''https://github.com/owner/repo.git'' = Ok (''owner'', ''repo'')"
    by code_simp
next
  show "GetOriginRepo_parse ''git@github.com:owner/repo.git'' = Ok (''owner'', ''repo'')"
    by code_simp
next
  show "GetOriginRepo_parse ''https://github.com/owner/repo'' = Ok (''owner'', ''repo'')"
    by code_simp
next
  show "GetOriginRepo_parse ''git@github.com:owner/repo'' = Ok (''owner'', ''repo'')"
    by code_simp
qed

theorem C7_git_suffix_witness:
  "GetOriginRepo_parse ''git@github.com:owner/repo'' = Ok (''owner'', ''repo'')
   \<and> \<not> HasSuffix ''git@github.com:owner/repo'' ''.git''
   \<and> GetOriginRepo_parse (''git@github.com:owner/repo'' @ ''.git'') = Ok (''owner'', ''repo'')"
proof -
  have a: "GetOriginRepo_parse ''git@github.com:owner/repo'' = Ok (''owner'', ''repo'')" by code_simp
  have b: "\<not> HasSuffix ''git@github.com:owner/repo'' ''.git''" by code_simp
  from a b C7_git_suffix [of "''git@github.com:owner/repo''" "(''owner'', ''repo'')"]
  show ?thesis by blast
qed

text \<open>
  C9. Parsing never panics, on any url: the index 1 into the split at github.com/ is in
  bounds whenever that branch is taken. A url that neither starts with git@github.com: nor
  contains github.com/ gives the error UnsupportedURLFormat carrying that url.
\<close>

theorem C9_unsupported_no_panic:
  "GetOriginRepo_parse url \<noteq> Panic
   \<and> (Contains url ''github.com/'' \<longrightarrow> 1 < length (SplitN url ''github.com/'' 2))
   \<and> (\<not> HasPrefix url ''git@github.com:'' \<and> \<not> Contains url ''github.com/'' \<longrightarrow>
        GetOriginRepo_parse url = Err (UnsupportedURLFormat url))"
proof (intro conjI impI)
  show "GetOriginRepo_parse url \<noteq> Panic"
    by (simp add: GetOriginRepo_parse_char split: option.splits)
next
  assume "Contains url ''github.com/''"
  then obtain m where "Index url ''github.com/'' = Some m"
    by (auto simp: Contains_def)
  then have "SplitN url ''github.com/'' 2 = [take m url, drop (m + length ''github.com/'') url]"
    by (rule SplitN2_Some) simp
  then show "1 < length (SplitN url ''github.com/'' 2)" by simp
next
  assume "\<not> HasPrefix url ''git@github.com:'' \<and> \<not> Contains url ''github.com/''"
  then show "GetOriginRepo_parse url = Err (UnsupportedURLFormat url)"
    by (simp add: GetOriginRepo_parse_def)
qed

theorem C9_unsupported_no_panic_witness:
  "\<not> HasPrefix ''ftp://example.com/x'' ''git@github.com:''
   \<and> \<not> Contains ''ftp://example.com/x'' ''github.com/''
   \<and> GetOriginRepo_parse ''ftp://example.com/x'' = Err (UnsupportedURLFormat ''ftp://example.com/x'')
   \<and> Contains ''https://github.com/owner/repo.git'' ''github.com/''
   \<and> 1 < length (SplitN ''https://github.com/owner/repo.git'' ''github.com/'' 2)"
proof -
  have a: "\<not> HasPrefix ''ftp://example.com/x'' ''git@github.com:''" by code_simp
  have b: "\<not> Contains ''ftp://example.com/x'' ''github.com/''" by code_simp
  have c: "Contains ''https://github.com/owner/repo.git'' ''github.com/''" by code_simp
  from a b c C9_unsupported_no_panic [of "''ftp://example.com/x''"]
    C9_unsupported_no_panic [of "''https://github.com/owner/repo.git''"]
  show ?thesis by blast
qed

text \<open>
  C2, as stated, fails: where remote-add fails because the remote upstream already exists,
  the command did not succeed and fetch, merge and push are attempted all the same.
\<close>

theorem C2_counterexample:
  "\<not> succeeds world_remote_exists ''/usr/bin/git''
       [''remote'', ''add'', ''upstream'', ''https://github.com/up/stream.git'']
   \<and> execs (main world_remote_exists example_config) =
       [(''git'', [''remote'', ''get-url'', ''origin'']),
        (''/usr/bin/git'', [''remote'', ''add'', ''upstream'', ''https://github.com/up/stream.git'']),
        (''/usr/bin/git'', [''fetch'', ''upstream'']),
        (''/usr/bin/git'', [''merge'', ''upstream'', ''upstream/main'']),
        (''/usr/bin/git'', [''push'', ''origin'', ''HEAD:main''])]"
  by code_simp

text \<open>
  C2, amended. In a run against a fork that is not a dry run, after the query git remote
  get-url origin, the commands issued are, in this order: remote add upstream with the
  parent's clone url; fetch upstream, attempted only if remote-add succeeded or failed with
  a message containing "remote upstream already exists"; the integration command of
  getSyncCommand, attempted only if fetch succeeded; push, attempted only if the integration
  succeeded, with the arguments push, then -f exactly when ForcePush is set, then origin, then
  HEAD: followed by the origin branch. For the configuration rebase false, forcePush false,
  both branches main, and every step passing, they are exactly remote add upstream url,
  fetch upstream, merge upstream upstream/main, push origin HEAD:main.
\<close>

theorem C2_command_sequence:
  assumes "\<not> DryRun config" and "forkRun w owner repoName repoInfo gitBin"
  shows "execs (main w config) =
     (''git'', [''remote'', ''get-url'', ''origin'']) #
     (gitBin, [''remote'', ''add'', ''upstream'', Parent_CloneURL repoInfo]) #
     (if remoteAddPasses w gitBin repoInfo then
        (gitBin, [''fetch'', ''upstream'']) #
        (if succeeds w gitBin [''fetch'', ''upstream''] then
           (gitBin, Args (getSyncCommand config (UpstreamBranch config))) #
           (if succeeds w gitBin (Args (getSyncCommand config (UpstreamBranch config))) then
              [(gitBin, ''push'' # (if ForcePush config then [''-f''] else [])
                         @ [''origin'', ''HEAD:'' @ OriginBranch config])]
            else [])
         else [])
      else [])
   \<and> (config = \<lparr>UpstreamBranch = ''main'', OriginBranch = ''main'', Rebase = False,
                    ForcePush = False, DryRun = False\<rparr>
         \<and> remoteAddPasses w gitBin repoInfo
         \<and> succeeds w gitBin [''fetch'', ''upstream'']
         \<and> succeeds w gitBin [''merge'', ''upstream'', ''upstream/main'']
         \<longrightarrow> execs (main w config) =
               [(''git'', [''remote'', ''get-url'', ''origin'']),
                (gitBin, [''remote'', ''add'', ''upstream'', Parent_CloneURL repoInfo]),
                (gitBin, [''fetch'', ''upstream'']),
                (gitBin, [''merge'', ''upstream'', ''upstream/main'']),
                (gitBin, [''push'', ''origin'', ''HEAD:main''])])"
proof -
  have m: "execs (main w config) =
      (''git'', [''remote'', ''get-url'', ''origin'']) # execs (main_remote_add w config repoInfo gitBin)"
    by (simp add: main_forkRun [OF assms] execs_append execs_forkRun_events)
  have g: "execs (main w config) =
     (''git'', [''remote'', ''get-url'', ''origin'']) #
     (gitBin, [''remote'', ''add'', ''upstream'', Parent_CloneURL repoInfo]) #
     (if remoteAddPasses w gitBin repoInfo then
        (gitBin, [''fetch'', ''upstream'']) #
        (if succeeds w gitBin [''fetch'', ''upstream''] then
           (gitBin, Args (getSyncCommand config (UpstreamBranch config))) #
           (if succeeds w gitBin (Args (getSyncCommand config (UpstreamBranch config))) then
              [(gitBin, ''push'' # (if ForcePush config then [''-f''] else [])
                         @ [''origin'', ''HEAD:'' @ OriginBranch config])]
            else [])
         else [])
      else [])"
    by (simp only: m execs_main_remote_add execs_main_fetch execs_main_sync pushArgs_def)
  have h: "execs (main w config) =
               [(''git'', [''remote'', ''get-url'', ''origin'']),
                (gitBin, [''remote'', ''add'', ''upstream'', Parent_CloneURL repoInfo]),
                (gitBin, [''fetch'', ''upstream'']),
                (gitBin, [''merge'', ''upstream'', ''upstream/main'']),
                (gitBin, [''push'', ''origin'', ''HEAD:main''])]"
    if a: "config = \<lparr>UpstreamBranch = ''main'', OriginBranch = ''main'', Rebase = False,
                    ForcePush = False, DryRun = False\<rparr>
         \<and> remoteAddPasses w gitBin repoInfo
         \<and> succeeds w gitBin [''fetch'', ''upstream'']
         \<and> succeeds w gitBin [''merge'', ''upstream'', ''upstream/main'']"
    using a g by (simp add: getSyncCommand_def Let_def)
  from g h show ?thesis by blast
qed

theorem C2_command_sequence_witness:
  "\<not> DryRun example_config
   \<and> forkRun world_all_ok ''me'' ''fork'' example_info ''/usr/bin/git''
   \<and> remoteAddPasses world_all_ok ''/usr/bin/git'' example_info
   \<and> succeeds world_all_ok ''/usr/bin/git'' [''fetch'', ''upstream'']
   \<and> succeeds world_all_ok ''/usr/bin/git'' [''merge'', ''upstream'', ''upstream/main'']
   \<and> execs (main world_all_ok example_config) =
       [(''git'', [''remote'', ''get-url'', ''origin'']),
        (''/usr/bin/git'', [''remote'', ''add'', ''upstream'', ''https://github.com/up/stream.git'']),
        (''/usr/bin/git'', [''fetch'', ''upstream'']),
        (''/usr/bin/git'', [''merge'', ''upstream'', ''upstream/main'']),
        (''/usr/bin/git'', [''push'', ''origin'', ''HEAD:main''])]"
proof -
  have a: "\<not> DryRun example_config" by (simp add: example_config_def)
  have b: "forkRun world_all_ok ''me'' ''fork'' example_info ''/usr/bin/git''"
    unfolding world_all_ok_def by (rule example_forkRun)
  have c: "remoteAddPasses world_all_ok ''/usr/bin/git'' example_info"
    by (simp add: remoteAddPasses_def runGitCommand_def remoteAddCommand_def world_all_ok_def
        example_world_def example_info_def)
  have d: "succeeds world_all_ok ''/usr/bin/git'' [''fetch'', ''upstream'']"
    by (simp add: succeeds_def world_all_ok_def example_world_def)
  have e: "succeeds world_all_ok ''/usr/bin/git'' [''merge'', ''upstream'', ''upstream/main'']"
    by (simp add: succeeds_def world_all_ok_def example_world_def)
  have f: "example_config = \<lparr>UpstreamBranch = ''main'', OriginBranch = ''main'', Rebase = False,
                    ForcePush = False, DryRun = False\<rparr>"
    by (simp add: example_config_def)
  have g: "Parent_CloneURL example_info = ''https://github.com/up/stream.git''"
    by (simp add: example_info_def)
  from C2_command_sequence [OF a b] f c d e
  have "execs (main world_all_ok example_config) =
       [(''git'', [''remote'', ''get-url'', ''origin'']),
        (''/usr/bin/git'', [''remote'', ''add'', ''upstream'', Parent_CloneURL example_info]),
        (''/usr/bin/git'', [''fetch'', ''upstream'']),
        (''/usr/bin/git'', [''merge'', ''upstream'', ''upstream/main'']),
        (''/usr/bin/git'', [''push'', ''origin'', ''HEAD:main''])]"
    by blast
  with a b c d e g show ?thesis by simp
qed

text \<open>
  C4. With DryRun set, a run makes no call to any collaborator (no git command, no call to
  the API, no lookup of git): its trace is exactly the six printed lines of printDryRun with
  the placeholder url, and it ends without a panic.
\<close>

theorem C4_dry_run:
  assumes "DryRun config"
  shows "main w config =
     [Print (''Note: The following commands are examples. The actual upstream URL will be taken from your fork's parent repository.'' @ nl),
      Print (''Dry run mode - commands that would be executed:'' @ nl),
      Print (''Would run: git remote add upstream https://github.com/upstream/repo.git'' @ nl),
      Print (''Would run: git fetch upstream'' @ nl),
      Print (''Would run: git '' @ (if Rebase config then ''rebase'' else ''merge'')
             @ '' upstream/'' @ UpstreamBranch config @ nl),
      Print (''Would run: git '' @ (if ForcePush config then ''push -f'' else ''push'')
             @ '' origin HEAD:'' @ OriginBranch config @ nl)]
   \<and> filter isCall (main w config) = []
   \<and> execs (main w config) = []
   \<and> Crash \<notin> set (main w config)"
  using assms by (simp add: main_def printDryRun_def printDryRun_sync_def)

theorem C4_dry_run_witness:
  "DryRun (example_config\<lparr>DryRun := True\<rparr>)
   \<and> main world_all_ok (example_config\<lparr>DryRun := True\<rparr>) =
     [Print (''Note: The following commands are examples. The actual upstream URL will be taken from your fork's parent repository.'' @ nl),
      Print (''Dry run mode - commands that would be executed:'' @ nl),
      Print (''Would run: git remote add upstream https://github.com/upstream/repo.git'' @ nl),
      Print (''Would run: git fetch upstream'' @ nl),
      Print (''Would run: git merge upstream/main'' @ nl),
      Print (''Would run: git push origin HEAD:main'' @ nl)]
   \<and> filter isCall (main world_all_ok (example_config\<lparr>DryRun := True\<rparr>)) = []"
  using C4_dry_run [of "example_config\<lparr>DryRun := True\<rparr>" world_all_ok]
  by (simp add: example_config_def)

text \<open>
  C5. When the remote-add command fails in a run against a fork: if the message of the
  error contains "remote upstream already exists" the run goes on with the fetch step, whose
  first event is the command fetch upstream; otherwise the run prints the error and ends,
  and no command is issued after remote-add.
\<close>

theorem C5_remote_exists:
  assumes "\<not> DryRun config" and "forkRun w owner repoName repoInfo gitBin"
    and "snd (runGitCommand w gitBin
               \<lparr>Args = [''remote'', ''add'', ''upstream'', Parent_CloneURL repoInfo],
                Description = ''adding upstream remote''\<rparr>) = Some err"
  shows "(Contains (Error err) ''remote upstream already exists'' \<longrightarrow>
            main w config =
              forkRun_events owner repoName repoInfo
              @ Exec gitBin [''remote'', ''add'', ''upstream'', Parent_CloneURL repoInfo]
              # main_fetch w config gitBin
            \<and> hd (main_fetch w config gitBin) = Exec gitBin [''fetch'', ''upstream'']
            \<and> take 3 (execs (main w config)) =
                [(''git'', [''remote'', ''get-url'', ''origin'']),
                 (gitBin, [''remote'', ''add'', ''upstream'', Parent_CloneURL repoInfo]),
                 (gitBin, [''fetch'', ''upstream''])])
   \<and> (\<not> Contains (Error err) ''remote upstream already exists'' \<longrightarrow>
            main w config =
              forkRun_events owner repoName repoInfo
              @ [Exec gitBin [''remote'', ''add'', ''upstream'', Parent_CloneURL repoInfo],
                 Print (cross @ '' Error while '' @ Error err @ nl)]
            \<and> execs (main w config) =
                [(''git'', [''remote'', ''get-url'', ''origin'']),
                 (gitBin, [''remote'', ''add'', ''upstream'', Parent_CloneURL repoInfo])])"
proof -
  from assms(3) have r: "snd (runGitCommand w gitBin (remoteAddCommand repoInfo)) = Some err"
    by (simp add: remoteAddCommand_def)
  have a: "Args (remoteAddCommand repoInfo) = [''remote'', ''add'', ''upstream'', Parent_CloneURL repoInfo]"
    by (simp add: remoteAddCommand_def)
  have m: "main w config =
      forkRun_events owner repoName repoInfo
      @ Exec gitBin [''remote'', ''add'', ''upstream'', Parent_CloneURL repoInfo]
      # (if \<not> Contains (Error err) ''remote upstream already exists''
         then [Print (cross @ '' Error while '' @ Error err @ nl)]
         else main_fetch w config gitBin)"
    by (simp add: main_forkRun [OF assms(1,2)] main_remote_add_eq r a)
  have h: "hd (main_fetch w config gitBin) = Exec gitBin [''fetch'', ''upstream'']"
    by (simp add: main_fetch_eq)
  have e: "execs (main_fetch w config gitBin) = (gitBin, [''fetch'', ''upstream'']) #
     (if succeeds w gitBin [''fetch'', ''upstream''] then execs (main_sync w config gitBin) else [])"
    by (rule execs_main_fetch)
  show ?thesis
    by (simp add: m h e execs_append execs_forkRun_events)
qed

theorem C5_remote_exists_witness:
  "\<not> DryRun example_config
   \<and> forkRun world_remote_exists ''me'' ''fork'' example_info ''/usr/bin/git''
   \<and> snd (runGitCommand world_remote_exists ''/usr/bin/git''
            \<lparr>Args = [''remote'', ''add'', ''upstream'', Parent_CloneURL example_info],
             Description = ''adding upstream remote''\<rparr>)
       = Some (CommandFailed ''adding upstream remote'' ''exit status 3''
                 (''error: remote upstream already exists.'' @ nl))
   \<and> Contains (Error (CommandFailed ''adding upstream remote'' ''exit status 3''
                 (''error: remote upstream already exists.'' @ nl)))
         ''remote upstream already exists''
   \<and> take 3 (execs (main world_remote_exists example_config)) =
       [(''git'', [''remote'', ''get-url'', ''origin'']),
        (''/usr/bin/git'', [''remote'', ''add'', ''upstream'', Parent_CloneURL example_info]),
        (''/usr/bin/git'', [''fetch'', ''upstream''])]
   \<and> forkRun world_remote_add_broken ''me'' ''fork'' example_info ''/usr/bin/git''
   \<and> snd (runGitCommand world_remote_add_broken ''/usr/bin/git''
            \<lparr>Args = [''remote'', ''add'', ''upstream'', Parent_CloneURL example_info],
             Description = ''adding upstream remote''\<rparr>)
       = Some (CommandFailed ''adding upstream remote'' ''exit status 255''
                 (''error: could not lock config file .git/config: Permission denied'' @ nl))
   \<and> \<not> Contains (Error (CommandFailed ''adding upstream remote'' ''exit status 255''
                 (''error: could not lock config file .git/config: Permission denied'' @ nl)))
         ''remote upstream already exists''
   \<and> execs (main world_remote_add_broken example_config) =
       [(''git'', [''remote'', ''get-url'', ''origin'']),
        (''/usr/bin/git'', [''remote'', ''add'', ''upstream'', Parent_CloneURL example_info])]"
proof -
  have a: "\<not> DryRun example_config" by (simp add: example_config_def)
  have b1: "forkRun world_remote_exists ''me'' ''fork'' example_info ''/usr/bin/git''"
    unfolding world_remote_exists_def by (rule example_forkRun)
  have b2: "forkRun world_remote_add_broken ''me'' ''fork'' example_info ''/usr/bin/git''"
    unfolding world_remote_add_broken_def by (rule example_forkRun)
  have c1: "snd (runGitCommand world_remote_exists ''/usr/bin/git''
            \<lparr>Args = [''remote'', ''add'', ''upstream'', Parent_CloneURL example_info],
             Description = ''adding upstream remote''\<rparr>)
       = Some (CommandFailed ''adding upstream remote'' ''exit status 3''
                 (''error: remote upstream already exists.'' @ nl))"
    by (simp add: runGitCommand_def world_remote_exists_def example_world_def example_info_def)
  have c2: "snd (runGitCommand world_remote_add_broken ''/usr/bin/git''
            \<lparr>Args = [''remote'', ''add'', ''upstream'', Parent_CloneURL example_info],
             Description = ''adding upstream remote''\<rparr>)
       = Some (CommandFailed ''adding upstream remote'' ''exit status 255''
                 (''error: could not lock config file .git/config: Permission denied'' @ nl))"
    by (simp add: runGitCommand_def world_remote_add_broken_def example_world_def example_info_def)
  have d1: "Contains (Error (CommandFailed ''adding upstream remote'' ''exit status 3''
                 (''error: remote upstream already exists.'' @ nl)))
         ''remote upstream already exists''"
    by code_simp
  have d2: "\<not> Contains (Error (CommandFailed ''adding upstream remote'' ''exit status 255''
                 (''error: could not lock config file .git/config: Permission denied'' @ nl)))
         ''remote upstream already exists''"
    by code_simp
  from C5_remote_exists [OF a b1 c1] C5_remote_exists [OF a b2 c2] a b1 b2 c1 c2 d1 d2
  show ?thesis by blast
qed

text \<open>
  C6. When the integration command fails in a run that reached it, no push is attempted:
  the integration command is the last command issued; and the run ends by printing the
  error and then the hint "git rebase --abort" if Rebase is set, "git merge --abort" if not.
\<close>

theorem C6_sync_failure:
  assumes "\<not> DryRun config" and "forkRun w owner repoName repoInfo gitBin"
    and "remoteAddPasses w gitBin repoInfo"
    and "succeeds w gitBin [''fetch'', ''upstream'']"
    and "snd (runGitCommand w gitBin (getSyncCommand config (UpstreamBranch config))) = Some err"
  shows "execs (main w config) =
           [(''git'', [''remote'', ''get-url'', ''origin'']),
            (gitBin, [''remote'', ''add'', ''upstream'', Parent_CloneURL repoInfo]),
            (gitBin, [''fetch'', ''upstream'']),
            (gitBin, Args (getSyncCommand config (UpstreamBranch config)))]
   \<and> filter (\<lambda>(bin, args). take 1 args = [''push'']) (execs (main w config)) = []
   \<and> (\<exists>tr. main w config =
          tr @ [Exec gitBin (Args (getSyncCommand config (UpstreamBranch config))),
                Print (cross @ '' Error while '' @ Error err @ nl),
                Print (if Rebase config then ''To abort the rebase, run: git rebase --abort'' @ nl
                       else ''To abort the merge, run: git merge --abort'' @ nl)])"
proof -
  from assms(5) have ns: "\<not> succeeds w gitBin (Args (getSyncCommand config (UpstreamBranch config)))"
    by (simp add: runGitCommand_snd_None [symmetric])
  have e: "execs (main w config) =
           [(''git'', [''remote'', ''get-url'', ''origin'']),
            (gitBin, [''remote'', ''add'', ''upstream'', Parent_CloneURL repoInfo]),
            (gitBin, [''fetch'', ''upstream'']),
            (gitBin, Args (getSyncCommand config (UpstreamBranch config)))]"
    using assms(3,4) ns
    by (simp add: main_forkRun [OF assms(1,2)] execs_append execs_forkRun_events
        execs_main_remote_add execs_main_fetch execs_main_sync)
  have f: "filter (\<lambda>(bin, args). take 1 args = [''push'']) (execs (main w config)) = []"
    by (simp add: e getSyncCommand_def Let_def)
  have s: "main_sync w config gitBin =
          [Exec gitBin (Args (getSyncCommand config (UpstreamBranch config))),
           Print (cross @ '' Error while '' @ Error err @ nl),
           Print (if Rebase config then ''To abort the rebase, run: git rebase --abort'' @ nl
                  else ''To abort the merge, run: git merge --abort'' @ nl)]"
    by (simp add: main_sync_eq assms(5))
  from assms(4) have fs: "snd (runGitCommand w gitBin
                 \<lparr>Args = [''fetch'', ''upstream''], Description = ''fetching upstream''\<rparr>) = None"
    by (simp add: runGitCommand_snd_None)
  have mf: "main_fetch w config gitBin =
     [Exec gitBin [''fetch'', ''upstream''], Print (check_mark @ '' Fetched upstream'' @ nl)]
     @ main_sync w config gitBin"
    by (simp add: main_fetch_eq fs)
  have "main_remote_add w config repoInfo gitBin =
     Exec gitBin (Args (remoteAddCommand repoInfo)) # main_fetch w config gitBin"
    using assms(3)
    by (cases "snd (runGitCommand w gitBin (remoteAddCommand repoInfo))")
       (simp_all add: main_remote_add_eq remoteAddPasses_def)
  then have "main w config =
     (forkRun_events owner repoName repoInfo
      @ [Exec gitBin (Args (remoteAddCommand repoInfo)),
         Exec gitBin [''fetch'', ''upstream''], Print (check_mark @ '' Fetched upstream'' @ nl)])
     @ main_sync w config gitBin"
    by (simp add: main_forkRun [OF assms(1,2)] mf)
  with s have "\<exists>tr. main w config =
          tr @ [Exec gitBin (Args (getSyncCommand config (UpstreamBranch config))),
                Print (cross @ '' Error while '' @ Error err @ nl),
                Print (if Rebase config then ''To abort the rebase, run: git rebase --abort'' @ nl
                       else ''To abort the merge, run: git merge --abort'' @ nl)]"
    by metis
  with e f show ?thesis by blast
qed

theorem C6_sync_failure_witness:
  "\<not> DryRun example_config
   \<and> forkRun world_merge_conflict ''me'' ''fork'' example_info ''/usr/bin/git''
   \<and> remoteAddPasses world_merge_conflict ''/usr/bin/git'' example_info
   \<and> succeeds world_merge_conflict ''/usr/bin/git'' [''fetch'', ''upstream'']
   \<and> snd (runGitCommand world_merge_conflict ''/usr/bin/git''
            (getSyncCommand example_config (UpstreamBranch example_config)))
       = Some (CommandFailed ''merging upstream'' ''exit status 1''
                (''CONFLICT (content): Merge conflict in README.md'' @ nl))
   \<and> execs (main world_merge_conflict example_config) =
           [(''git'', [''remote'', ''get-url'', ''origin'']),
            (''/usr/bin/git'', [''remote'', ''add'', ''upstream'', ''https://github.com/up/stream.git'']),
            (''/usr/bin/git'', [''fetch'', ''upstream'']),
            (''/usr/bin/git'', [''merge'', ''upstream'', ''upstream/main''])]
   \<and> (\<exists>tr. main world_merge_conflict example_config =
          tr @ [Exec ''/usr/bin/git'' [''merge'', ''upstream'', ''upstream/main''],
                Print (cross @ '' Error while ''
                       @ Error (CommandFailed ''merging upstream'' ''exit status 1''
                                 (''CONFLICT (content): Merge conflict in README.md'' @ nl)) @ nl),
                Print (''To abort the merge, run: git merge --abort'' @ nl)])"
proof -
  have a: "\<not> DryRun example_config" by (simp add: example_config_def)
  have b: "forkRun world_merge_conflict ''me'' ''fork'' example_info ''/usr/bin/git''"
    unfolding world_merge_conflict_def by (rule example_forkRun)
  have c: "remoteAddPasses world_merge_conflict ''/usr/bin/git'' example_info"
    by (simp add: remoteAddPasses_def runGitCommand_def remoteAddCommand_def
        world_merge_conflict_def example_world_def example_info_def)
  have d: "succeeds world_merge_conflict ''/usr/bin/git'' [''fetch'', ''upstream'']"
    by (simp add: succeeds_def world_merge_conflict_def example_world_def)
  have g: "Args (getSyncCommand example_config (UpstreamBranch example_config))
           = [''merge'', ''upstream'', ''upstream/main'']"
    and r: "\<not> Rebase example_config"
    by (simp_all add: getSyncCommand_def Let_def example_config_def)
  have e: "snd (runGitCommand world_merge_conflict ''/usr/bin/git''
            (getSyncCommand example_config (UpstreamBranch example_config)))
       = Some (CommandFailed ''merging upstream'' ''exit status 1''
                (''CONFLICT (content): Merge conflict in README.md'' @ nl))"
    by (simp add: runGitCommand_def getSyncCommand_def Let_def example_config_def
        world_merge_conflict_def example_world_def)
  have u: "Parent_CloneURL example_info = ''https://github.com/up/stream.git''"
    by (simp add: example_info_def)
  from C6_sync_failure [OF a b c d e] a b c d e show ?thesis
    by (simp only: g r u if_False) simp
qed

text \<open>
  C10. For the default configuration, whose upstream branch main is not empty, the dry run
  prints "git merge upstream/main" where the run executes git with the arguments merge,
  upstream, upstream/main: the projected command does not coincide with the executed one.
\<close>

theorem C10_dry_run_line_differs:
  "printDryRun_sync example_config = ''Would run: git merge upstream/main'' @ nl
   \<and> projectedLine (getSyncCommand example_config (UpstreamBranch example_config))
       = ''Would run: git merge upstream upstream/main'' @ nl
   \<and> printDryRun_sync example_config
       \<noteq> projectedLine (getSyncCommand example_config (UpstreamBranch example_config))"
  by (simp add: printDryRun_sync_def projectedLine_def getSyncCommand_def Let_def example_config_def)

end
